theory Spec2Isabelle
  imports Main "HOL-Library.AList"
begin

section \<open>JavaScript values\<close>

text \<open>
  The values the client handles: arguments of the API functions, the configuration
  variable \<^verbatim>\<open>window.__API_BASE_URL\<close>, and parsed JSON bodies. Numbers are the
  integers (printed in decimal); a string is the list of its code units, each below
  256. An object is the list of its own properties, each name occurring once.
\<close>

datatype jsval =
    JUndefined
  | JNull
  | JBool bool
  | JNum int
  | JStr string
  | JArr "jsval list"
  | JObj "(string \<times> jsval) list"

datatype error =
    Error string
  | TypeError string
  | SyntaxError string
  | DOMException string

text \<open>Truthiness, as \<^verbatim>\<open>!v\<close> and \<^verbatim>\<open>a || b\<close> read it.\<close>

fun truthy :: "jsval \<Rightarrow> bool" where
  "truthy JUndefined = False"
| "truthy JNull = False"
| "truthy (JBool b) = b"
| "truthy (JNum n) = (n \<noteq> 0)"
| "truthy (JStr s) = (s \<noteq> [])"
| "truthy (JArr xs) = True"
| "truthy (JObj kvs) = True"

fun is_string :: "jsval \<Rightarrow> bool" where
  "is_string (JStr s) = True"
| "is_string v = False"

definition digit_char :: "nat \<Rightarrow> char" where
  "digit_char d = ''0123456789'' ! d"

fun show_nat :: "nat \<Rightarrow> string" where
  "show_nat n = (if n < 10 then [digit_char n] else show_nat (n div 10) @ [digit_char (n mod 10)])"

declare show_nat.simps [simp del]

definition show_int :: "int \<Rightarrow> string" where
  "show_int i = (if i < 0 then CHR ''-'' # show_nat (nat (- i)) else show_nat (nat i))"

fun join_comma :: "string list \<Rightarrow> string" where
  "join_comma [] = []"
| "join_comma [s] = s"
| "join_comma (s # t # ss) = s @ '','' @ join_comma (t # ss)"

text \<open>\<^verbatim>\<open>String(v)\<close>, which is how \<^verbatim>\<open>new Error(v)\<close> and a template literal read a value.\<close>

fun js_to_string :: "jsval \<Rightarrow> string" where
  "js_to_string JUndefined = ''undefined''"
| "js_to_string JNull = ''null''"
| "js_to_string (JBool b) = (if b then ''true'' else ''false'')"
| "js_to_string (JNum n) = show_int n"
| "js_to_string (JStr s) = s"
| "js_to_string (JArr xs) =
     join_comma (map (\<lambda>x. if x = JNull \<or> x = JUndefined then [] else js_to_string x) xs)"
| "js_to_string (JObj kvs) = ''[object Object]''"

text \<open>
  Reading the property \<open>k\<close> of a value: \<^verbatim>\<open>null\<close> and \<^verbatim>\<open>undefined\<close> have no
  properties and the read throws; an object yields the property or \<^verbatim>\<open>undefined\<close>.
  The names read in this program (\<^verbatim>\<open>error\<close>, \<^verbatim>\<open>status\<close>) are no property of a
  boolean, a number, a string or an array.
\<close>

fun get_prop :: "jsval \<Rightarrow> string \<Rightarrow> error + jsval" where
  "get_prop JUndefined k = Inl (TypeError (''Cannot read properties of undefined (reading '' @ k @ '')''))"
| "get_prop JNull k = Inl (TypeError (''Cannot read properties of null (reading '' @ k @ '')''))"
| "get_prop (JObj kvs) k = (case map_of kvs k of Some v \<Rightarrow> Inr v | None \<Rightarrow> Inr JUndefined)"
| "get_prop v k = Inr JUndefined"

subsection \<open>Strings\<close>

text \<open>The white space and line terminators that \<^verbatim>\<open>String.prototype.trim\<close> removes.\<close>

definition is_space :: "char \<Rightarrow> bool" where
  "is_space c \<longleftrightarrow> of_char c \<in> {9::nat, 10, 11, 12, 13, 32, 160}"

definition trim :: "string \<Rightarrow> string" where
  "trim s = rev (dropWhile is_space (rev (dropWhile is_space s)))"

text \<open>\<^verbatim>\<open>s.replace(/\/$/, '')\<close>: one slash at the very end of the string is removed.\<close>

definition strip_trailing_slash :: "string \<Rightarrow> string" where
  "strip_trailing_slash s = (if s \<noteq> [] \<and> last s = CHR ''/'' then butlast s else s)"

section \<open>The API client (api.js)\<close>

record js_file =
  file_name :: string
  file_size :: nat
  file_type :: string

datatype form_value = FText string | FFile js_file

text \<open>
  The body of a request: none, the value handed to \<^verbatim>\<open>JSON.stringify\<close>, or the
  entries of a \<^verbatim>\<open>FormData\<close> in the order they were appended.
\<close>

datatype req_body = NoBody | Json jsval | Form "(string \<times> form_value) list"

record request =
  url :: string
  http_method :: string
  headers :: "(string \<times> string) list"
  body :: req_body

text \<open>
  A response carries its status and its body; \<^verbatim>\<open>response.json()\<close> yields the parsed
  value of a JSON body and rejects with a \<^verbatim>\<open>SyntaxError\<close> on any other body.
\<close>

datatype resp_body = JsonText jsval | RawText string

record response =
  status :: nat
  content :: resp_body

datatype blob = Blob resp_body

datatype fetch_result = Rejected error | Resolved response

definition ok :: "response \<Rightarrow> bool" where
  "ok r \<longleftrightarrow> 200 \<le> status r \<and> status r \<le> 299"

definition response_json :: "response \<Rightarrow> error + jsval" where
  "response_json r =
     (case content r of
        JsonText v \<Rightarrow> Inr v
      | RawText t \<Rightarrow> Inl (SyntaxError ''Unexpected token''))"

definition response_blob :: "response \<Rightarrow> blob" where
  "response_blob r = Blob (content r)"

text \<open>
  The state of the module: the variable \<^verbatim>\<open>API_BASE_URL\<close>, the browser's local storage
  (\<open>None\<close> when \<^verbatim>\<open>window.localStorage\<close> is missing) and the requests handed to
  \<^verbatim>\<open>fetch\<close> so far, oldest first. Console output is not part of the state.
\<close>

record api_state =
  API_BASE_URL :: string
  localStorage :: "(string \<times> string) list option"
  requests :: "request list"

text \<open>
  \<^verbatim>\<open>fetch\<close>: the request is recorded and the network \<open>net\<close> decides the outcome.
\<close>

definition fetch :: "(request \<Rightarrow> fetch_result) \<Rightarrow> request \<Rightarrow> api_state \<Rightarrow> fetch_result \<times> api_state" where
  "fetch net rq st = (net rq, st\<lparr>requests := requests st @ [rq]\<rparr>)"

definition setApiBaseUrl :: "jsval \<Rightarrow> api_state \<Rightarrow> (error + string) \<times> api_state" where
  "setApiBaseUrl u st =
     (if \<not> truthy u \<or> \<not> is_string u then
        (Inl (Error ''API base URL must be a non-empty string''), st)
      else
        (case u of
           JStr s \<Rightarrow>
             (let base = strip_trailing_slash s;
                  st1 = st\<lparr>API_BASE_URL := base\<rparr>;
                  st2 = (case localStorage st1 of
                           None \<Rightarrow> st1
                         | Some items \<Rightarrow>
                             st1\<lparr>localStorage := Some (AList.update ''API_BASE_URL'' base items)\<rparr>)
              in (Inr base, st2))
         | _ \<Rightarrow> (Inl (Error ''API base URL must be a non-empty string''), st)))"

definition getBaseUrl :: "api_state \<Rightarrow> string" where
  "getBaseUrl st = API_BASE_URL st"

definition getItem :: "api_state \<Rightarrow> string \<Rightarrow> string option" where
  "getItem st k = (case localStorage st of None \<Rightarrow> None | Some items \<Rightarrow> map_of items k)"

text \<open>
  What the four posting operations throw on a response that is not ok:
  \<^verbatim>\<open>const errorData = await response.json();
  throw new Error(errorData.error || `<prefix>${response.status}`);\<close>
\<close>

definition response_error :: "string \<Rightarrow> response \<Rightarrow> error" where
  "response_error prefix r =
     (case response_json r of
        Inl e \<Rightarrow> e
      | Inr errorData \<Rightarrow>
          (case get_prop errorData ''error'' of
             Inl e \<Rightarrow> e
           | Inr v \<Rightarrow> Error (if truthy v then js_to_string v else prefix @ show_nat (status r))))"

definition json_headers :: "(string \<times> string) list" where
  "json_headers = [(''Content-Type'', ''application/json'')]"

text \<open>
  Each operation's \<^verbatim>\<open>catch\<close> logs the error and throws it again, so the error of
  the body is the error of the operation.
\<close>

definition healthCheck :: "(request \<Rightarrow> fetch_result) \<Rightarrow> api_state \<Rightarrow> (error + jsval) \<times> api_state" where
  "healthCheck net st =
     (let (res, st') =
            fetch net \<lparr>url = API_BASE_URL st @ ''/health'', http_method = ''GET'',
                       headers = json_headers, body = NoBody\<rparr> st
      in case res of
           Rejected e \<Rightarrow> (Inl e, st')
         | Resolved r \<Rightarrow>
             if \<not> ok r then (Inl (Error (''Health check failed: '' @ show_nat (status r))), st')
             else (response_json r, st'))"

text \<open>The parameter \<open>topK\<close> is \<open>JUndefined\<close> when the caller leaves it out.\<close>

definition queryText ::
  "(request \<Rightarrow> fetch_result) \<Rightarrow> jsval \<Rightarrow> jsval \<Rightarrow> api_state \<Rightarrow> (error + jsval) \<times> api_state" where
  "queryText net query topK0 st =
     (let topK = (if topK0 = JUndefined then JNum 5 else topK0) in
      if \<not> truthy query then (Inl (Error ''Query cannot be empty''), st)
      else
        (case query of
           JStr q \<Rightarrow>
             if trim q = [] then (Inl (Error ''Query cannot be empty''), st)
             else
               (let (res, st') =
                      fetch net \<lparr>url = API_BASE_URL st @ ''/api/query'', http_method = ''POST'',
                                 headers = json_headers,
                                 body = Json (JObj [(''query'', JStr (trim q)), (''top_k'', topK)])\<rparr> st
                in case res of
                     Rejected e \<Rightarrow> (Inl e, st')
                   | Resolved r \<Rightarrow>
                       if \<not> ok r then (Inl (response_error ''Request failed: '' r), st')
                       else (response_json r, st'))
         | _ \<Rightarrow> (Inl (TypeError ''query.trim is not a function''), st)))"

text \<open>An image argument is \<open>None\<close> when it is \<^verbatim>\<open>null\<close> or \<^verbatim>\<open>undefined\<close>.\<close>

definition extractOCR ::
  "(request \<Rightarrow> fetch_result) \<Rightarrow> js_file option \<Rightarrow> api_state \<Rightarrow> (error + jsval) \<times> api_state" where
  "extractOCR net imageFile st =
     (case imageFile of
        None \<Rightarrow> (Inl (Error ''Image file is required''), st)
      | Some f \<Rightarrow>
          (let (res, st') =
                 fetch net \<lparr>url = API_BASE_URL st @ ''/api/ocr'', http_method = ''POST'',
                            headers = [], body = Form [(''image'', FFile f)]\<rparr> st
           in case res of
                Rejected e \<Rightarrow> (Inl e, st')
              | Resolved r \<Rightarrow>
                  if \<not> ok r then (Inl (response_error ''OCR failed: '' r), st')
                  else (response_json r, st')))"

text \<open>\<^verbatim>\<open>query.trim()\<close> and \<^verbatim>\<open>topK.toString()\<close> on the arguments of \<^verbatim>\<open>imageQuery\<close>.\<close>

fun call_trim :: "jsval \<Rightarrow> error + string" where
  "call_trim (JStr s) = Inr (trim s)"
| "call_trim JNull = Inl (TypeError ''Cannot read properties of null (reading trim)'')"
| "call_trim JUndefined = Inl (TypeError ''Cannot read properties of undefined (reading trim)'')"
| "call_trim v = Inl (TypeError ''query.trim is not a function'')"

fun call_toString :: "jsval \<Rightarrow> error + string" where
  "call_toString JNull = Inl (TypeError ''Cannot read properties of null (reading toString)'')"
| "call_toString JUndefined = Inl (TypeError ''Cannot read properties of undefined (reading toString)'')"
| "call_toString v = Inr (js_to_string v)"

definition imageQuery ::
  "(request \<Rightarrow> fetch_result) \<Rightarrow> js_file option \<Rightarrow> jsval \<Rightarrow> jsval \<Rightarrow> api_state
     \<Rightarrow> (error + jsval) \<times> api_state" where
  "imageQuery net imageFile query0 topK0 st =
     (let query = (if query0 = JUndefined then JStr [] else query0);
          topK = (if topK0 = JUndefined then JNum 5 else topK0)
      in case imageFile of
           None \<Rightarrow> (Inl (Error ''Image file is required''), st)
         | Some f \<Rightarrow>
             (case call_trim query of
                Inl e \<Rightarrow> (Inl e, st)
              | Inr q \<Rightarrow>
                  (case call_toString topK of
                     Inl e \<Rightarrow> (Inl e, st)
                   | Inr k \<Rightarrow>
                       (let (res, st') =
                              fetch net \<lparr>url = API_BASE_URL st @ ''/api/image-query'', http_method = ''POST'',
                                         headers = [],
                                         body = Form [(''image'', FFile f), (''query'', FText q),
                                                      (''top_k'', FText k)]\<rparr> st
                        in case res of
                             Rejected e \<Rightarrow> (Inl e, st')
                           | Resolved r \<Rightarrow>
                               if \<not> ok r then (Inl (response_error ''Image query failed: '' r), st')
                               else (response_json r, st')))))"

definition textToSpeech ::
  "(request \<Rightarrow> fetch_result) \<Rightarrow> jsval \<Rightarrow> api_state \<Rightarrow> (error + blob) \<times> api_state" where
  "textToSpeech net text st =
     (if \<not> truthy text then (Inl (Error ''Text cannot be empty''), st)
      else
        (case text of
           JStr t \<Rightarrow>
             if trim t = [] then (Inl (Error ''Text cannot be empty''), st)
             else
               (let (res, st') =
                      fetch net \<lparr>url = API_BASE_URL st @ ''/api/tts'', http_method = ''POST'',
                                 headers = json_headers,
                                 body = Json (JObj [(''text'', JStr (trim t))])\<rparr> st
                in case res of
                     Rejected e \<Rightarrow> (Inl e, st')
                   | Resolved r \<Rightarrow>
                       if \<not> ok r then (Inl (response_error ''TTS failed: '' r), st')
                       else (Inr (response_blob r), st'))
         | _ \<Rightarrow> (Inl (TypeError ''text.trim is not a function''), st)))"

text \<open>
  \<^verbatim>\<open>checkConnection\<close> wraps the health check and the read of \<^verbatim>\<open>health.status\<close> in
  one \<^verbatim>\<open>try\<close>; its \<^verbatim>\<open>catch\<close> returns \<^verbatim>\<open>false\<close>.
\<close>

definition checkConnection :: "(request \<Rightarrow> fetch_result) \<Rightarrow> api_state \<Rightarrow> (error + bool) \<times> api_state" where
  "checkConnection net st =
     (let (res, st') = healthCheck net st
      in case res of
           Inl e \<Rightarrow> (Inr False, st')
         | Inr health \<Rightarrow>
             (case get_prop health ''status'' of
                Inl e \<Rightarrow> (Inr False, st')
              | Inr v \<Rightarrow> (Inr (v = JStr ''healthy''), st')))"

subsection \<open>Resolving the base URL at load\<close>

record location =
  origin :: string
  protocol :: string
  hostname :: string
  port :: string

text \<open>
  What \<^verbatim>\<open>resolveApiBaseUrl\<close> reads: \<^verbatim>\<open>window.__API_BASE_URL\<close> (\<open>JUndefined\<close> when
  not defined), the local storage (\<open>None\<close> when \<^verbatim>\<open>window.localStorage\<close> is missing),
  the \<^verbatim>\<open>content\<close> of the meta element named \<^verbatim>\<open>api-base-url\<close> (\<open>None\<close> when the page
  has no such element) and \<^verbatim>\<open>window.location\<close>.
\<close>

record load_env =
  window_API_BASE_URL :: jsval
  window_localStorage :: "(string \<times> string) list option"
  meta_api_base_url :: "string option"
  window_location :: location

definition js_or :: "jsval \<Rightarrow> jsval \<Rightarrow> jsval" where
  "js_or a b = (if truthy a then a else b)"

definition fromStorage :: "load_env \<Rightarrow> jsval" where
  "fromStorage env =
     (case window_localStorage env of
        None \<Rightarrow> JNull
      | Some items \<Rightarrow> (case map_of items ''API_BASE_URL'' of None \<Rightarrow> JNull | Some s \<Rightarrow> JStr s))"

definition fromMeta :: "load_env \<Rightarrow> jsval" where
  "fromMeta env = (case meta_api_base_url env of None \<Rightarrow> JUndefined | Some s \<Rightarrow> JStr s)"

definition resolveApiBaseUrl :: "load_env \<Rightarrow> error + string" where
  "resolveApiBaseUrl env =
     (let fromWindow = window_API_BASE_URL env;
          loc = window_location env;
          fallback =
            (if \<not> truthy fromWindow \<and> \<not> truthy (fromStorage env) \<and> \<not> truthy (fromMeta env) then
               (let host = hostname loc;
                    isLocal = (host = ''localhost'' \<or> host = ''127.0.0.1'')
                in if isLocal \<and> port loc \<noteq> [] \<and> port loc \<noteq> ''5000''
                   then protocol loc @ ''//'' @ host @ '':5000''
                   else origin loc)
             else origin loc);
          selected = js_or fromWindow (js_or (fromStorage env) (js_or (fromMeta env) (JStr fallback)))
      in case selected of
           JStr s \<Rightarrow> Inr (strip_trailing_slash s)
         | _ \<Rightarrow> Inl (TypeError ''selected.replace is not a function''))"

text \<open>
  The priority order in the words of the specification. A source is set when it holds a
  non-empty string.
\<close>

definition configured :: "jsval \<Rightarrow> string option" where
  "configured v = (case v of JStr s \<Rightarrow> (if s = [] then None else Some s) | _ \<Rightarrow> None)"

definition same_origin_fallback :: "location \<Rightarrow> string" where
  "same_origin_fallback loc =
     (if (hostname loc = ''localhost'' \<or> hostname loc = ''127.0.0.1'')
         \<and> port loc \<noteq> [] \<and> port loc \<noteq> ''5000''
      then protocol loc @ ''//'' @ hostname loc @ '':5000''
      else origin loc)"

definition base_url_by_priority :: "load_env \<Rightarrow> string" where
  "base_url_by_priority env =
     strip_trailing_slash
       (case configured (window_API_BASE_URL env) of
          Some w \<Rightarrow> w
        | None \<Rightarrow>
            (case configured (fromStorage env) of
               Some s \<Rightarrow> s
             | None \<Rightarrow>
                 (case configured (fromMeta env) of
                    Some m \<Rightarrow> m
                  | None \<Rightarrow> same_origin_fallback (window_location env))))"

section \<open>The UI controller (main.js)\<close>

text \<open>
  What the handlers do to the page is kept as a trace of the calls they make on the
  view layer and on the elements they look up by id (all present in the page).
\<close>

datatype ui_event =
    ShowLoading string
  | HideLoading
  | ShowStatus string string string
  | HideStatus string
  | ShowError string
  | SetValue string string
  | AddClass string string
  | RemoveClass string string
  | SetAudioSrc nat
  | PlayAudio
  | ReadAsDataURL js_file
  | DownloadClick nat

text \<open>
  The two module variables, the browser's store of object URLs (those created and not
  yet revoked) and the API client's state. The \<open>n\<close>-th URL that
  \<^verbatim>\<open>URL.createObjectURL\<close> hands out is the number \<open>n\<close>, so every call yields a URL
  never seen before.
\<close>

record app_state =
  api :: api_state
  selectedImage :: "js_file option"
  currentAudioUrl :: "nat option"
  live_urls :: "nat set"
  next_url :: nat
  ui :: "ui_event list"

definition emit :: "ui_event list \<Rightarrow> app_state \<Rightarrow> app_state" where
  "emit evs st = st\<lparr>ui := ui st @ evs\<rparr>"

definition createObjectURL :: "blob \<Rightarrow> app_state \<Rightarrow> nat \<times> app_state" where
  "createObjectURL b st =
     (next_url st, st\<lparr>live_urls := insert (next_url st) (live_urls st), next_url := Suc (next_url st)\<rparr>)"

definition revokeObjectURL :: "nat \<Rightarrow> app_state \<Rightarrow> app_state" where
  "revokeObjectURL u st = st\<lparr>live_urls := live_urls st - {u}\<rparr>"

text \<open>\<open>answerText\<close> is the text content of the element \<^verbatim>\<open>text-answer\<close>.\<close>

definition handleTextToSpeech :: "(request \<Rightarrow> fetch_result) \<Rightarrow> string \<Rightarrow> app_state \<Rightarrow> app_state" where
  "handleTextToSpeech net answerText st =
     (if answerText = [] then st
      else
        (let st1 = emit [ShowLoading ''Generating audio...''] st;
             (res, api') = textToSpeech net (JStr answerText) (api st1);
             st2 = st1\<lparr>api := api'\<rparr>
         in case res of
              Inr audioBlob \<Rightarrow>
                (let st3 = (case currentAudioUrl st2 of
                              Some old \<Rightarrow> revokeObjectURL old st2
                            | None \<Rightarrow> st2);
                     (u, st4) = createObjectURL audioBlob st3;
                     st5 = st4\<lparr>currentAudioUrl := Some u\<rparr>
                 in emit [SetAudioSrc u, RemoveClass ''audio-player'' ''hidden'', PlayAudio,
                          HideLoading] st5)
            | Inl e \<Rightarrow>
                emit [HideLoading, ShowStatus ''voice-status'' ''Audio generation failed'' ''error''] st2))"

definition clearTextResults :: "app_state \<Rightarrow> app_state" where
  "clearTextResults st =
     (let st1 = emit [SetValue ''query-input'' [], AddClass ''text-result'' ''hidden'',
                      AddClass ''audio-player'' ''hidden'', HideStatus ''voice-status''] st
      in case currentAudioUrl st1 of
           Some u \<Rightarrow> (revokeObjectURL u st1)\<lparr>currentAudioUrl := None\<rparr>
         | None \<Rightarrow> st1)"

text \<open>The listener of \<^verbatim>\<open>beforeunload\<close>.\<close>

definition beforeunload :: "app_state \<Rightarrow> app_state" where
  "beforeunload st =
     (case currentAudioUrl st of
        Some u \<Rightarrow> revokeObjectURL u st
      | None \<Rightarrow> st)"

text \<open>
  \<open>ocrText\<close> is the value of the element \<^verbatim>\<open>ocr-text\<close> (empty when the element is
  missing) and \<open>answer\<close> the text content of \<^verbatim>\<open>image-answer\<close>.
\<close>

definition downloadResult :: "string \<Rightarrow> string \<Rightarrow> app_state \<Rightarrow> app_state" where
  "downloadResult ocrText answer st =
     (let content =
            (if ocrText \<noteq> []
             then ''=== IMAGE OCR TEXT ==='' @ [CHR 0x0A] @ ocrText @ [CHR 0x0A, CHR 0x0A]
                    @ ''=== AI ANSWER ==='' @ [CHR 0x0A] @ answer
             else ''=== AI ANSWER ==='' @ [CHR 0x0A] @ answer);
          (u, st1) = createObjectURL (Blob (RawText content)) st;
          st2 = emit [DownloadClick u] st1
      in revokeObjectURL u st2)"

definition maxSize :: nat where
  "maxSize = 16 * 1024 * 1024"

definition handleImageSelect :: "js_file \<Rightarrow> app_state \<Rightarrow> app_state" where
  "handleImageSelect f st =
     (if file_size f > maxSize then emit [ShowError ''Image size must be less than 16MB''] st
      else emit [ReadAsDataURL f] (st\<lparr>selectedImage := Some f\<rparr>))"

text \<open>
  The handlers that assign one of the two variables or touch an object URL, as the
  events of a run of the page. The other handlers (text query, voice input, image
  analysis) do neither.
\<close>

datatype handler_run =
    RunTextToSpeech "request \<Rightarrow> fetch_result" string
  | RunClearTextResults
  | RunBeforeUnload
  | RunDownloadResult string string
  | RunImageSelect js_file

fun run_handler :: "handler_run \<Rightarrow> app_state \<Rightarrow> app_state" where
  "run_handler (RunTextToSpeech net answerText) st = handleTextToSpeech net answerText st"
| "run_handler RunClearTextResults st = clearTextResults st"
| "run_handler RunBeforeUnload st = beforeunload st"
| "run_handler (RunDownloadResult ocrText answer) st = downloadResult ocrText answer st"
| "run_handler (RunImageSelect f) st = handleImageSelect f st"

definition run_handlers :: "handler_run list \<Rightarrow> app_state \<Rightarrow> app_state" where
  "run_handlers hs st = fold run_handler hs st"

text \<open>The state when the script has loaded: both variables are \<^verbatim>\<open>null\<close>.\<close>

definition initial_app_state :: "api_state \<Rightarrow> app_state" where
  "initial_app_state a =
     \<lparr>api = a, selectedImage = None, currentAudioUrl = None, live_urls = {}, next_url = 0, ui = []\<rparr>"

subsection \<open>Switching tabs\<close>

text \<open>
  The document as \<^verbatim>\<open>switchTab\<close> sees it: its elements in document order, each with
  its id and its class list. An element is named by its position.
\<close>

record element =
  elem_id :: string
  classList :: "string list"

type_synonym dom = "element list"

definition has_class :: "string \<Rightarrow> element \<Rightarrow> bool" where
  "has_class c e \<longleftrightarrow> c \<in> set (classList e)"

definition querySelectorAll_class :: "string \<Rightarrow> dom \<Rightarrow> nat list" where
  "querySelectorAll_class c d = [i \<leftarrow> [0..<length d]. has_class c (d ! i)]"

definition getElementById :: "string \<Rightarrow> dom \<Rightarrow> nat option" where
  "getElementById x d = List.find (\<lambda>i. elem_id (d ! i) = x) [0..<length d]"

definition classList_remove :: "string \<Rightarrow> element \<Rightarrow> element" where
  "classList_remove c e = e\<lparr>classList := removeAll c (classList e)\<rparr>"

definition classList_add :: "string \<Rightarrow> element \<Rightarrow> element" where
  "classList_add c e = (if c \<in> set (classList e) then e else e\<lparr>classList := classList e @ [c]\<rparr>)"

definition at_element :: "(element \<Rightarrow> element) \<Rightarrow> nat \<Rightarrow> dom \<Rightarrow> dom" where
  "at_element f i d = d[i := f (d ! i)]"

text \<open>\<^verbatim>\<open>nodes.forEach(n => n.classList.remove(c))\<close> over a node list.\<close>

definition forEach_remove :: "string \<Rightarrow> nat list \<Rightarrow> dom \<Rightarrow> dom" where
  "forEach_remove c nodes d = fold (at_element (classList_remove c)) nodes d"

text \<open>
  \<^verbatim>\<open>nodes[k].classList.add(c)\<close> and \<^verbatim>\<open>document.getElementById(x).classList.add(c)\<close>:
  reading \<^verbatim>\<open>classList\<close> of \<^verbatim>\<open>undefined\<close> or \<^verbatim>\<open>null\<close> throws.
\<close>

definition add_at_index :: "string \<Rightarrow> nat list \<Rightarrow> nat \<Rightarrow> dom \<Rightarrow> error + dom" where
  "add_at_index c nodes k d =
     (if k < length nodes then Inr (at_element (classList_add c) (nodes ! k) d)
      else Inl (TypeError ''Cannot read properties of undefined (reading classList)''))"

definition add_by_id :: "string \<Rightarrow> string \<Rightarrow> dom \<Rightarrow> error + dom" where
  "add_by_id c x d =
     (case getElementById x d of
        Some i \<Rightarrow> Inr (at_element (classList_add c) i d)
      | None \<Rightarrow> Inl (TypeError ''Cannot read properties of null (reading classList)''))"

text \<open>
  \<^verbatim>\<open>switchTab\<close> returns the document it leaves behind and the error it threw, if any:
  a throw keeps the changes made before it.
\<close>

definition switchTab :: "string \<Rightarrow> dom \<Rightarrow> error option \<times> dom" where
  "switchTab tab d =
     (let tabBtns = querySelectorAll_class ''tab-btn'' d;
          tabContents = querySelectorAll_class ''tab-content'' d;
          d1 = forEach_remove ''active'' tabBtns d;
          d2 = forEach_remove ''active'' tabContents d1;
          (k, panel) = (if tab = ''text'' then (0, ''text-tab'') else (1, ''image-tab''))
      in case add_at_index ''active'' tabBtns k d2 of
           Inl e \<Rightarrow> (Some e, d2)
         | Inr d3 \<Rightarrow>
             (case add_by_id ''active'' panel d3 of
                Inl e \<Rightarrow> (Some e, d3)
              | Inr d4 \<Rightarrow> (None, d4)))"

definition active_of_class :: "string \<Rightarrow> dom \<Rightarrow> nat list" where
  "active_of_class c d = [i \<leftarrow> [0..<length d]. has_class c (d ! i) \<and> has_class ''active'' (d ! i)]"

text \<open>
  The page \<^verbatim>\<open>switchTab\<close> is written for: two tab buttons at least, the panels
  \<^verbatim>\<open>text-tab\<close> and \<^verbatim>\<open>image-tab\<close> among the tab contents, and no element that is
  both a tab button and a tab content.
\<close>

definition tab_page :: "dom \<Rightarrow> bool" where
  "tab_page d \<longleftrightarrow>
     2 \<le> length (querySelectorAll_class ''tab-btn'' d)
     \<and> (case getElementById ''text-tab'' d of
          Some i \<Rightarrow> has_class ''tab-content'' (d ! i) | None \<Rightarrow> False)
     \<and> (case getElementById ''image-tab'' d of
          Some i \<Rightarrow> has_class ''tab-content'' (d ! i) | None \<Rightarrow> False)
     \<and> list_all (\<lambda>e. \<not> (has_class ''tab-btn'' e \<and> has_class ''tab-content'' e)) d"

section \<open>The voice wrapper\<close>

record recognition_config =
  continuous :: bool
  interimResults :: bool
  lang :: string
  maxAlternatives :: nat

text \<open>
  The object \<^verbatim>\<open>Voice\<close> and the browser's side of its recognition object: whether a
  session is running, and how many times \<^verbatim>\<open>start()\<close> has been called.
\<close>

record voice_state =
  recognition :: "recognition_config option"
  isListening :: bool
  session_running :: bool
  start_calls :: nat

text \<open>How a promise stands when the function that made it returns, or after an event.\<close>

datatype 'a settlement = Pending | Resolve 'a | Reject error

text \<open>
  \<open>supported\<close> is the value of \<^verbatim>\<open>isSupported()\<close>: whether \<^verbatim>\<open>window\<close> has a speech
  recognition constructor.
\<close>

definition initialize :: "bool \<Rightarrow> voice_state \<Rightarrow> voice_state" where
  "initialize supported v =
     (if \<not> supported then v
      else v\<lparr>recognition := Some \<lparr>continuous = False, interimResults = False,
                                   lang = ''en-US'', maxAlternatives = 1\<rparr>\<rparr>)"

text \<open>
  \<^verbatim>\<open>recognition.start()\<close> throws when the session is already running.
\<close>

definition recognition_start :: "voice_state \<Rightarrow> error option \<times> voice_state" where
  "recognition_start v =
     (let v1 = v\<lparr>start_calls := Suc (start_calls v)\<rparr>
      in if session_running v1 then (Some (DOMException ''InvalidStateError''), v1)
         else (None, v1\<lparr>session_running := True\<rparr>))"

definition recognize :: "bool \<Rightarrow> voice_state \<Rightarrow> string settlement \<times> voice_state" where
  "recognize supported v =
     (if \<not> supported then (Reject (Error ''Speech recognition not supported''), v)
      else
        (let v1 = (if recognition v = None then initialize supported v else v)
         in if isListening v1 then (Reject (Error ''Already listening''), v1)
            else
              (let v2 = v1\<lparr>isListening := True\<rparr>
               in case recognition_start v2 of
                    (Some e, v3) \<Rightarrow> (Reject e, v3\<lparr>isListening := False\<rparr>)
                  | (None, v3) \<Rightarrow> (Pending, v3))))"

text \<open>
  The three callbacks that \<^verbatim>\<open>recognize\<close> installs; the browser calls them while the
  session runs, and ends the session with \<^verbatim>\<open>onend\<close>.
\<close>

definition onresult :: "string \<Rightarrow> voice_state \<Rightarrow> string settlement \<times> voice_state" where
  "onresult transcript v = (Resolve transcript, v\<lparr>isListening := False\<rparr>)"

definition onerror :: "string \<Rightarrow> voice_state \<Rightarrow> string settlement \<times> voice_state" where
  "onerror code v =
     (Reject (if code = ''no-speech'' then Error ''No speech detected''
              else if code = ''audio-capture'' then Error ''Microphone not available''
              else if code = ''not-allowed'' then Error ''Microphone permission denied''
              else Error code),
      v\<lparr>isListening := False\<rparr>)"

definition onend :: "voice_state \<Rightarrow> voice_state" where
  "onend v = v\<lparr>isListening := False, session_running := False\<rparr>"

definition stop :: "voice_state \<Rightarrow> voice_state" where
  "stop v = (if recognition v \<noteq> None \<and> isListening v then v\<lparr>isListening := False\<rparr> else v)"

text \<open>
  What can happen to the wrapper: calls of \<^verbatim>\<open>recognize\<close> and \<^verbatim>\<open>stop\<close>, and the
  browser's events, which only arrive while a session runs.
\<close>

datatype voice_event = CallRecognize | CallStop | Result string | Failure string | End

fun voice_step :: "bool \<Rightarrow> voice_event \<Rightarrow> voice_state \<Rightarrow> voice_state" where
  "voice_step supported CallRecognize v = snd (recognize supported v)"
| "voice_step supported CallStop v = stop v"
| "voice_step supported (Result t) v = (if session_running v then snd (onresult t v) else v)"
| "voice_step supported (Failure c) v = (if session_running v then snd (onerror c v) else v)"
| "voice_step supported End v = (if session_running v then onend v else v)"

definition initial_voice :: voice_state where
  "initial_voice = \<lparr>recognition = None, isListening = False, session_running = False, start_calls = 0\<rparr>"

definition voice_run :: "bool \<Rightarrow> voice_event list \<Rightarrow> voice_state" where
  "voice_run supported evs = fold (voice_step supported) evs initial_voice"

section \<open>Properties of the API client\<close>

subsection \<open>Auxiliary facts\<close>

lemma trim_empty_iff: "trim s = [] \<longleftrightarrow> (\<forall>c\<in>set s. is_space c)"
proof -
  have "trim s = [] \<longleftrightarrow> (\<forall>c\<in>set (dropWhile is_space s). is_space c)"
    by (simp add: trim_def)
  also have "\<dots> \<longleftrightarrow> dropWhile is_space s = []"
  proof
    assume a: "\<forall>c\<in>set (dropWhile is_space s). is_space c"
    show "dropWhile is_space s = []"
    proof (rule ccontr)
      assume n: "dropWhile is_space s \<noteq> []"
      then have "\<not> is_space (hd (dropWhile is_space s))" by (rule hd_dropWhile)
      moreover have "hd (dropWhile is_space s) \<in> set (dropWhile is_space s)" using n by simp
      ultimately show False using a by blast
    qed
  next
    assume "dropWhile is_space s = []"
    then show "\<forall>c\<in>set (dropWhile is_space s). is_space c" by (auto dest: set_dropWhileD)
  qed
  also have "\<dots> \<longleftrightarrow> (\<forall>c\<in>set s. is_space c)"
    by simp
  finally show ?thesis .
qed

lemma setApiBaseUrl_reject:
  "\<not> is_string u \<or> u = JStr [] \<Longrightarrow>
     setApiBaseUrl u st = (Inl (Error ''API base URL must be a non-empty string''), st)"
  by (cases u) (auto simp: setApiBaseUrl_def)

lemma setApiBaseUrl_accept:
  "s \<noteq> [] \<Longrightarrow>
     fst (setApiBaseUrl (JStr s) st) = Inr (strip_trailing_slash s)
     \<and> API_BASE_URL (snd (setApiBaseUrl (JStr s) st)) = strip_trailing_slash s
     \<and> requests (snd (setApiBaseUrl (JStr s) st)) = requests st
     \<and> localStorage (snd (setApiBaseUrl (JStr s) st)) =
         map_option (AList.update ''API_BASE_URL'' (strip_trailing_slash s)) (localStorage st)"
  by (cases "localStorage st") (simp_all add: setApiBaseUrl_def Let_def)

lemma healthCheck_base: "API_BASE_URL (snd (healthCheck net st)) = API_BASE_URL st"
  by (simp add: healthCheck_def fetch_def Let_def split: fetch_result.splits)

lemma queryText_base: "API_BASE_URL (snd (queryText net q k st)) = API_BASE_URL st"
  by (simp add: queryText_def fetch_def Let_def split: fetch_result.splits jsval.splits)

lemma extractOCR_base: "API_BASE_URL (snd (extractOCR net f st)) = API_BASE_URL st"
  by (simp add: extractOCR_def fetch_def Let_def split: fetch_result.splits option.splits)

lemma imageQuery_base: "API_BASE_URL (snd (imageQuery net f q k st)) = API_BASE_URL st"
  by (simp add: imageQuery_def fetch_def Let_def split: fetch_result.splits option.splits sum.splits)

lemma textToSpeech_base: "API_BASE_URL (snd (textToSpeech net t st)) = API_BASE_URL st"
  by (simp add: textToSpeech_def fetch_def Let_def split: fetch_result.splits jsval.splits)

lemma checkConnection_base: "API_BASE_URL (snd (checkConnection net st)) = API_BASE_URL st"
  using healthCheck_base [of net st]
  by (auto simp: checkConnection_def Let_def split: prod.splits sum.splits)


subsection \<open>Setting the base URL\<close>

text \<open>
  C2, as stated, promises that every accepted URL is persisted. The write to the local
  storage is guarded by \<^verbatim>\<open>if (window.localStorage)\<close>: in a browser without local
  storage \<^verbatim>\<open>setApiBaseUrl('http://x/')\<close> succeeds and nothing is persisted.
\<close>

theorem setApiBaseUrl_without_storage_counterexample:
  "fst (setApiBaseUrl (JStr ''http://x/'')
          \<lparr>API_BASE_URL = ''http://old'', localStorage = None, requests = []\<rparr>) = Inr ''http://x''
   \<and> getItem (snd (setApiBaseUrl (JStr ''http://x/'')
          \<lparr>API_BASE_URL = ''http://old'', localStorage = None, requests = []\<rparr>)) ''API_BASE_URL'' = None"
  by (simp add: setApiBaseUrl_def getItem_def strip_trailing_slash_def Let_def)

text \<open>
  C2 (amended): \<^verbatim>\<open>setApiBaseUrl\<close> throws on every argument that is not a string or is
  the empty string, and leaves the state as it was. On a non-empty string it returns
  the string without its trailing slash, and \<^verbatim>\<open>getBaseUrl()\<close> returns that value
  afterwards, also after any of the network operations. The value is stored under the
  key \<^verbatim>\<open>API_BASE_URL\<close> when the browser has a local storage; without one, only the
  variable changes.
\<close>

theorem setApiBaseUrl_normalizes:
  "(\<not> is_string u \<or> u = JStr [] \<longrightarrow>
      setApiBaseUrl u st = (Inl (Error ''API base URL must be a non-empty string''), st))
   \<and> (s \<noteq> [] \<longrightarrow>
      fst (setApiBaseUrl (JStr s) st) = Inr (strip_trailing_slash s)
      \<and> getBaseUrl (snd (setApiBaseUrl (JStr s) st)) = strip_trailing_slash s
      \<and> (localStorage st \<noteq> None \<longrightarrow>
           getItem (snd (setApiBaseUrl (JStr s) st)) ''API_BASE_URL'' = Some (strip_trailing_slash s))
      \<and> (localStorage st = None \<longrightarrow> localStorage (snd (setApiBaseUrl (JStr s) st)) = None)
      \<and> getBaseUrl (snd (healthCheck net (snd (setApiBaseUrl (JStr s) st)))) = strip_trailing_slash s
      \<and> getBaseUrl (snd (queryText net q k (snd (setApiBaseUrl (JStr s) st)))) = strip_trailing_slash s
      \<and> getBaseUrl (snd (extractOCR net f (snd (setApiBaseUrl (JStr s) st)))) = strip_trailing_slash s
      \<and> getBaseUrl (snd (imageQuery net f q k (snd (setApiBaseUrl (JStr s) st)))) = strip_trailing_slash s
      \<and> getBaseUrl (snd (textToSpeech net q (snd (setApiBaseUrl (JStr s) st)))) = strip_trailing_slash s
      \<and> getBaseUrl (snd (checkConnection net (snd (setApiBaseUrl (JStr s) st)))) = strip_trailing_slash s)"
proof (intro conjI impI)
  assume "\<not> is_string u \<or> u = JStr []"
  then show "setApiBaseUrl u st = (Inl (Error ''API base URL must be a non-empty string''), st)"
    by (rule setApiBaseUrl_reject)
next
  assume s: "s \<noteq> []"
  note acc = setApiBaseUrl_accept [OF s, of st]
  show "fst (setApiBaseUrl (JStr s) st) = Inr (strip_trailing_slash s)" using acc by simp
  show b: "getBaseUrl (snd (setApiBaseUrl (JStr s) st)) = strip_trailing_slash s"
    using acc by (simp add: getBaseUrl_def)
  show "getItem (snd (setApiBaseUrl (JStr s) st)) ''API_BASE_URL'' = Some (strip_trailing_slash s)"
    if "localStorage st \<noteq> None"
    using acc that by (auto simp: getItem_def update_conv')
  show "localStorage (snd (setApiBaseUrl (JStr s) st)) = None" if "localStorage st = None"
    using acc that by simp
  show "getBaseUrl (snd (healthCheck net (snd (setApiBaseUrl (JStr s) st)))) = strip_trailing_slash s"
    using b by (simp add: getBaseUrl_def healthCheck_base)
  show "getBaseUrl (snd (queryText net q k (snd (setApiBaseUrl (JStr s) st)))) = strip_trailing_slash s"
    using b by (simp add: getBaseUrl_def queryText_base)
  show "getBaseUrl (snd (extractOCR net f (snd (setApiBaseUrl (JStr s) st)))) = strip_trailing_slash s"
    using b by (simp add: getBaseUrl_def extractOCR_base)
  show "getBaseUrl (snd (imageQuery net f q k (snd (setApiBaseUrl (JStr s) st)))) = strip_trailing_slash s"
    using b by (simp add: getBaseUrl_def imageQuery_base)
  show "getBaseUrl (snd (textToSpeech net q (snd (setApiBaseUrl (JStr s) st)))) = strip_trailing_slash s"
    using b by (simp add: getBaseUrl_def textToSpeech_base)
  show "getBaseUrl (snd (checkConnection net (snd (setApiBaseUrl (JStr s) st)))) = strip_trailing_slash s"
    using b by (simp add: getBaseUrl_def checkConnection_base)
qed

theorem setApiBaseUrl_normalizes_witness:
  "setApiBaseUrl (JStr [])
      \<lparr>API_BASE_URL = ''http://old'', localStorage = Some [], requests = []\<rparr>
     = (Inl (Error ''API base URL must be a non-empty string''),
        \<lparr>API_BASE_URL = ''http://old'', localStorage = Some [], requests = []\<rparr>)
   \<and> fst (setApiBaseUrl (JStr ''http://x/'')
      \<lparr>API_BASE_URL = ''http://old'', localStorage = Some [], requests = []\<rparr>) = Inr ''http://x''
   \<and> getBaseUrl (snd (setApiBaseUrl (JStr ''http://x/'')
      \<lparr>API_BASE_URL = ''http://old'', localStorage = Some [], requests = []\<rparr>)) = ''http://x''
   \<and> getItem (snd (setApiBaseUrl (JStr ''http://x/'')
      \<lparr>API_BASE_URL = ''http://old'', localStorage = Some [], requests = []\<rparr>)) ''API_BASE_URL''
       = Some ''http://x''"
  using setApiBaseUrl_normalizes [of "JStr []"
      "\<lparr>API_BASE_URL = ''http://old'', localStorage = Some [], requests = []\<rparr>" "''http://x/''"]
  by (simp add: strip_trailing_slash_def)

subsection \<open>The text query\<close>

lemma queryText_issues:
  "trim q \<noteq> [] \<Longrightarrow>
     queryText net (JStr q) n st =
       (let rq = \<lparr>url = API_BASE_URL st @ ''/api/query'', http_method = ''POST'', headers = json_headers,
                   body = Json (JObj [(''query'', JStr (trim q)),
                                      (''top_k'', if n = JUndefined then JNum 5 else n)])\<rparr>;
            st' = st\<lparr>requests := requests st @ [rq]\<rparr>
        in case net rq of
             Rejected e \<Rightarrow> (Inl e, st')
           | Resolved r \<Rightarrow>
               if \<not> ok r then (Inl (response_error ''Request failed: '' r), st')
               else (response_json r, st'))"
  by (auto simp: queryText_def fetch_def Let_def trim_def)

text \<open>
  C1: for a query that is not empty after trimming and any \<open>n\<close>, \<^verbatim>\<open>queryText\<close> adds
  exactly one request to those issued: a POST to the base URL followed by
  \<^verbatim>\<open>/api/query\<close>, with the JSON body \<^verbatim>\<open>{query: <trimmed>, top_k: n}\<close>, where \<open>n\<close> is
  5 when the argument is left out. This holds whatever the network answers.
\<close>

theorem queryText_request_body:
  "trim q \<noteq> [] \<Longrightarrow>
     requests (snd (queryText net (JStr q) n st)) =
       requests st @
         [\<lparr>url = getBaseUrl st @ ''/api/query'', http_method = ''POST'',
           headers = [(''Content-Type'', ''application/json'')],
           body = Json (JObj [(''query'', JStr (trim q)),
                              (''top_k'', if n = JUndefined then JNum 5 else n)])\<rparr>]"
  by (simp add: queryText_issues Let_def getBaseUrl_def json_headers_def split: fetch_result.splits)

theorem queryText_request_body_witness:
  "trim '' what is RAG? '' \<noteq> []
   \<and> requests (snd (queryText (\<lambda>rq. Rejected (TypeError ''Failed to fetch'')) (JStr '' what is RAG? '') (JNum 3)
        \<lparr>API_BASE_URL = ''http://x'', localStorage = None, requests = []\<rparr>)) =
       [\<lparr>url = ''http://x/api/query'', http_method = ''POST'',
         headers = [(''Content-Type'', ''application/json'')],
         body = Json (JObj [(''query'', JStr ''what is RAG?''), (''top_k'', JNum 3)])\<rparr>]
   \<and> requests (snd (queryText (\<lambda>rq. Rejected (TypeError ''Failed to fetch'')) (JStr '' what is RAG? '') JUndefined
        \<lparr>API_BASE_URL = ''http://x'', localStorage = None, requests = []\<rparr>)) =
       [\<lparr>url = ''http://x/api/query'', http_method = ''POST'',
         headers = [(''Content-Type'', ''application/json'')],
         body = Json (JObj [(''query'', JStr ''what is RAG?''), (''top_k'', JNum 5)])\<rparr>]"
proof -
  have t: "trim '' what is RAG? '' = ''what is RAG?''"
    by (simp add: trim_def is_space_def)
  then have h: "trim '' what is RAG? '' \<noteq> []" by simp
  show ?thesis
    using h t
      queryText_request_body [OF h, of "\<lambda>rq. Rejected (TypeError ''Failed to fetch'')" "JNum 3"
        "\<lparr>API_BASE_URL = ''http://x'', localStorage = None, requests = []\<rparr>"]
      queryText_request_body [OF h, of "\<lambda>rq. Rejected (TypeError ''Failed to fetch'')" JUndefined
        "\<lparr>API_BASE_URL = ''http://x'', localStorage = None, requests = []\<rparr>"]
    by (simp add: getBaseUrl_def)
qed


subsection \<open>Validation of the inputs\<close>


text \<open>
  C4: \<^verbatim>\<open>queryText\<close> and \<^verbatim>\<open>textToSpeech\<close> on an empty or whitespace-only string (or on
  any falsy argument), and \<^verbatim>\<open>extractOCR\<close> and \<^verbatim>\<open>imageQuery\<close> on a missing image, fail
  with their validation error and return the state unchanged: no request is issued.
\<close>

theorem inputs_validated_before_request:
  "((\<forall>c\<in>set q. is_space c) \<longrightarrow>
      queryText net (JStr q) n st = (Inl (Error ''Query cannot be empty''), st)
      \<and> textToSpeech net (JStr q) st = (Inl (Error ''Text cannot be empty''), st))
   \<and> (\<not> truthy v \<longrightarrow>
      queryText net v n st = (Inl (Error ''Query cannot be empty''), st)
      \<and> textToSpeech net v st = (Inl (Error ''Text cannot be empty''), st))
   \<and> extractOCR net None st = (Inl (Error ''Image file is required''), st)
   \<and> imageQuery net None query n st = (Inl (Error ''Image file is required''), st)"
proof (intro conjI impI)
  assume "\<forall>c\<in>set q. is_space c"
  then have t: "trim q = []" by (simp add: trim_empty_iff)
  show "queryText net (JStr q) n st = (Inl (Error ''Query cannot be empty''), st)"
    using t by (simp add: queryText_def Let_def)
  show "textToSpeech net (JStr q) st = (Inl (Error ''Text cannot be empty''), st)"
    using t by (simp add: textToSpeech_def)
next
  assume f: "\<not> truthy v"
  show "queryText net v n st = (Inl (Error ''Query cannot be empty''), st)"
    using f by (simp add: queryText_def Let_def)
  show "textToSpeech net v st = (Inl (Error ''Text cannot be empty''), st)"
    using f by (simp add: textToSpeech_def)
next
  show "extractOCR net None st = (Inl (Error ''Image file is required''), st)"
    by (simp add: extractOCR_def)
  show "imageQuery net None query n st = (Inl (Error ''Image file is required''), st)"
    by (simp add: imageQuery_def Let_def)
qed

theorem inputs_validated_before_request_witness:
  "list_all is_space [CHR '' '', CHR 0x09, CHR 0x0A]
   \<and> \<not> truthy JNull
   \<and> requests (snd (queryText (\<lambda>rq. Resolved \<lparr>status = 200, content = JsonText JNull\<rparr>)
        (JStr [CHR '' '', CHR 0x09, CHR 0x0A]) (JNum 5)
        \<lparr>API_BASE_URL = ''http://x'', localStorage = None, requests = []\<rparr>)) = []
   \<and> requests (snd (textToSpeech (\<lambda>rq. Resolved \<lparr>status = 200, content = JsonText JNull\<rparr>)
        (JStr [CHR '' '', CHR 0x09, CHR 0x0A])
        \<lparr>API_BASE_URL = ''http://x'', localStorage = None, requests = []\<rparr>)) = []
   \<and> requests (snd (queryText (\<lambda>rq. Resolved \<lparr>status = 200, content = JsonText JNull\<rparr>)
        JNull (JNum 5)
        \<lparr>API_BASE_URL = ''http://x'', localStorage = None, requests = []\<rparr>)) = []
   \<and> requests (snd (extractOCR (\<lambda>rq. Resolved \<lparr>status = 200, content = JsonText JNull\<rparr>) None
        \<lparr>API_BASE_URL = ''http://x'', localStorage = None, requests = []\<rparr>)) = []
   \<and> requests (snd (imageQuery (\<lambda>rq. Resolved \<lparr>status = 200, content = JsonText JNull\<rparr>) None
        (JStr ''what'') (JNum 5)
        \<lparr>API_BASE_URL = ''http://x'', localStorage = None, requests = []\<rparr>)) = []"
proof -
  have g: "\<not> truthy JNull" by simp
  show ?thesis
    using g inputs_validated_before_request
      [of "[CHR '' '', CHR 0x09, CHR 0x0A]"
          "\<lambda>rq. Resolved \<lparr>status = 200, content = JsonText JNull\<rparr>" "JNum 5"
          "\<lparr>API_BASE_URL = ''http://x'', localStorage = None, requests = []\<rparr>" JNull
          "JStr ''what''"]
    by (simp add: is_space_def)
qed

subsection \<open>The connection check\<close>

text \<open>
  C10: \<^verbatim>\<open>checkConnection\<close> always returns a boolean and never throws. The boolean is
  true exactly when the health check succeeds with a payload whose \<^verbatim>\<open>status\<close> is the
  string \<^verbatim>\<open>healthy\<close>; it is false when the health check fails, whatever the reason.
\<close>

theorem checkConnection_never_throws:
  "fst (checkConnection net st) =
     Inr (case fst (healthCheck net st) of
            Inl e \<Rightarrow> False
          | Inr health \<Rightarrow> get_prop health ''status'' = Inr (JStr ''healthy''))"
  by (auto simp: checkConnection_def Let_def split: prod.splits sum.splits)

subsection \<open>Responses that are not ok\<close>











subsection \<open>The base URL at load\<close>

text \<open>
  C9: \<^verbatim>\<open>resolveApiBaseUrl\<close> returns, with one trailing slash stripped, the first of:
  the global override, the value in local storage, the meta tag, and the same-origin
  fallback, where the fallback is \<^verbatim>\<open><protocol>//<host>:5000\<close> on \<^verbatim>\<open>localhost\<close> or
  \<^verbatim>\<open>127.0.0.1\<close> with a non-empty port other than \<^verbatim>\<open>5000\<close> and the origin otherwise.
  The override, when set, is a string.
\<close>

theorem resolveApiBaseUrl_priority:
  "(truthy (window_API_BASE_URL env) \<longrightarrow> is_string (window_API_BASE_URL env)) \<Longrightarrow>
     resolveApiBaseUrl env = Inr (base_url_by_priority env)"
  by (cases "window_API_BASE_URL env")
     (auto simp: resolveApiBaseUrl_def base_url_by_priority_def configured_def js_or_def
        fromStorage_def fromMeta_def same_origin_fallback_def Let_def
        split: option.splits)


theorem resolveApiBaseUrl_priority_witness:
  "resolveApiBaseUrl
     \<lparr>window_API_BASE_URL = JStr ''http://w/'',
      window_localStorage = Some [(''API_BASE_URL'', ''http://s/'')],
      meta_api_base_url = Some ''http://m/'',
      window_location = \<lparr>origin = ''http://localhost:3000'', protocol = ''http:'',
                          hostname = ''localhost'', port = ''3000''\<rparr>\<rparr> = Inr ''http://w''
   \<and> resolveApiBaseUrl
     \<lparr>window_API_BASE_URL = JUndefined,
      window_localStorage = Some [(''API_BASE_URL'', ''http://s/'')],
      meta_api_base_url = Some ''http://m/'',
      window_location = \<lparr>origin = ''http://localhost:3000'', protocol = ''http:'',
                          hostname = ''localhost'', port = ''3000''\<rparr>\<rparr> = Inr ''http://s''
   \<and> resolveApiBaseUrl
     \<lparr>window_API_BASE_URL = JUndefined,
      window_localStorage = Some [],
      meta_api_base_url = Some ''http://m/'',
      window_location = \<lparr>origin = ''http://localhost:3000'', protocol = ''http:'',
                          hostname = ''localhost'', port = ''3000''\<rparr>\<rparr> = Inr ''http://m''
   \<and> resolveApiBaseUrl
     \<lparr>window_API_BASE_URL = JUndefined,
      window_localStorage = None,
      meta_api_base_url = None,
      window_location = \<lparr>origin = ''http://localhost:3000'', protocol = ''http:'',
                          hostname = ''localhost'', port = ''3000''\<rparr>\<rparr> = Inr ''http://localhost:5000''
   \<and> resolveApiBaseUrl
     \<lparr>window_API_BASE_URL = JUndefined,
      window_localStorage = None,
      meta_api_base_url = None,
      window_location = \<lparr>origin = ''https://rag.example'', protocol = ''https:'',
                          hostname = ''rag.example'', port = []\<rparr>\<rparr> = Inr ''https://rag.example''"
  using
    resolveApiBaseUrl_priority
      [of "\<lparr>window_API_BASE_URL = JStr ''http://w/'',
           window_localStorage = Some [(''API_BASE_URL'', ''http://s/'')],
           meta_api_base_url = Some ''http://m/'',
           window_location = \<lparr>origin = ''http://localhost:3000'', protocol = ''http:'',
                               hostname = ''localhost'', port = ''3000''\<rparr>\<rparr>"]
    resolveApiBaseUrl_priority
      [of "\<lparr>window_API_BASE_URL = JUndefined,
           window_localStorage = Some [(''API_BASE_URL'', ''http://s/'')],
           meta_api_base_url = Some ''http://m/'',
           window_location = \<lparr>origin = ''http://localhost:3000'', protocol = ''http:'',
                               hostname = ''localhost'', port = ''3000''\<rparr>\<rparr>"]
    resolveApiBaseUrl_priority
      [of "\<lparr>window_API_BASE_URL = JUndefined,
           window_localStorage = Some [],
           meta_api_base_url = Some ''http://m/'',
           window_location = \<lparr>origin = ''http://localhost:3000'', protocol = ''http:'',
                               hostname = ''localhost'', port = ''3000''\<rparr>\<rparr>"]
    resolveApiBaseUrl_priority
      [of "\<lparr>window_API_BASE_URL = JUndefined,
           window_localStorage = None,
           meta_api_base_url = None,
           window_location = \<lparr>origin = ''http://localhost:3000'', protocol = ''http:'',
                               hostname = ''localhost'', port = ''3000''\<rparr>\<rparr>"]
    resolveApiBaseUrl_priority
      [of "\<lparr>window_API_BASE_URL = JUndefined,
           window_localStorage = None,
           meta_api_base_url = None,
           window_location = \<lparr>origin = ''https://rag.example'', protocol = ''https:'',
                               hostname = ''rag.example'', port = []\<rparr>\<rparr>"]
  by (simp add: base_url_by_priority_def configured_def fromStorage_def fromMeta_def
      same_origin_fallback_def strip_trailing_slash_def)

section \<open>Properties of the UI controller\<close>

subsection \<open>Image selection\<close>

text \<open>
  C7: a file larger than 16 MiB is rejected with an error message and the state,
  \<^verbatim>\<open>selectedImage\<close> included, is otherwise unchanged; a file of at most 16 MiB becomes
  the selected image.
\<close>

theorem handleImageSelect_size_cap:
  "(file_size f > 16 * 1024 * 1024 \<longrightarrow>
      handleImageSelect f st = st\<lparr>ui := ui st @ [ShowError ''Image size must be less than 16MB'']\<rparr>
      \<and> selectedImage (handleImageSelect f st) = selectedImage st)
   \<and> (file_size f \<le> 16 * 1024 * 1024 \<longrightarrow> selectedImage (handleImageSelect f st) = Some f)"
  by (simp add: handleImageSelect_def maxSize_def emit_def)

theorem handleImageSelect_size_cap_witness:
  "file_size \<lparr>file_name = ''big.png'', file_size = 16777217, file_type = ''image/png''\<rparr> > 16 * 1024 * 1024
   \<and> selectedImage (handleImageSelect
        \<lparr>file_name = ''big.png'', file_size = 16777217, file_type = ''image/png''\<rparr>
        (initial_app_state \<lparr>API_BASE_URL = ''http://x'', localStorage = None, requests = []\<rparr>)) = None
   \<and> file_size \<lparr>file_name = ''ok.png'', file_size = 16777216, file_type = ''image/png''\<rparr> \<le> 16 * 1024 * 1024
   \<and> selectedImage (handleImageSelect
        \<lparr>file_name = ''ok.png'', file_size = 16777216, file_type = ''image/png''\<rparr>
        (initial_app_state \<lparr>API_BASE_URL = ''http://x'', localStorage = None, requests = []\<rparr>))
      = Some \<lparr>file_name = ''ok.png'', file_size = 16777216, file_type = ''image/png''\<rparr>"
  using handleImageSelect_size_cap
      [of "\<lparr>file_name = ''big.png'', file_size = 16777217, file_type = ''image/png''\<rparr>"
          "initial_app_state \<lparr>API_BASE_URL = ''http://x'', localStorage = None, requests = []\<rparr>"]
    handleImageSelect_size_cap
      [of "\<lparr>file_name = ''ok.png'', file_size = 16777216, file_type = ''image/png''\<rparr>"
          "initial_app_state \<lparr>API_BASE_URL = ''http://x'', localStorage = None, requests = []\<rparr>"]
  by (simp add: initial_app_state_def)

subsection \<open>The audio URL\<close>

text \<open>
  The part of \<^verbatim>\<open>handleTextToSpeech\<close> after its \<^verbatim>\<open>await\<close> reads and assigns
  \<^verbatim>\<open>currentAudioUrl\<close> in one synchronous stretch, so a handler run is one step of the
  state.
\<close>

lemma handleTextToSpeech_success:
  assumes "answerText \<noteq> []" and "textToSpeech net (JStr answerText) (api st) = (Inr b, a')"
  shows "handleTextToSpeech net answerText st =
           st\<lparr>api := a',
              currentAudioUrl := Some (next_url st),
              live_urls := insert (next_url st) (live_urls st - set_option (currentAudioUrl st)),
              next_url := Suc (next_url st),
              ui := ui st @ [ShowLoading ''Generating audio...'', SetAudioSrc (next_url st),
                             RemoveClass ''audio-player'' ''hidden'', PlayAudio, HideLoading]\<rparr>"
  using assms
  by (cases "currentAudioUrl st")
     (simp_all add: handleTextToSpeech_def emit_def createObjectURL_def revokeObjectURL_def Let_def)

lemma handleTextToSpeech_failure:
  assumes "textToSpeech net (JStr answerText) (api st) = (Inl e, a')"
  shows "live_urls (handleTextToSpeech net answerText st) = live_urls st
         \<and> currentAudioUrl (handleTextToSpeech net answerText st) = currentAudioUrl st"
  using assms by (simp add: handleTextToSpeech_def emit_def Let_def)

lemma handleTextToSpeech_inv:
  assumes "live_urls st \<subseteq> set_option (currentAudioUrl st)"
  shows "live_urls (handleTextToSpeech net t st) \<subseteq> set_option (currentAudioUrl (handleTextToSpeech net t st))"
proof (cases "t = []")
  case True
  then show ?thesis using assms by (simp add: handleTextToSpeech_def)
next
  case False
  obtain res a' where r: "textToSpeech net (JStr t) (api st) = (res, a')"
    by (cases "textToSpeech net (JStr t) (api st)")
  show ?thesis
  proof (cases res)
    case (Inl e)
    then show ?thesis using assms handleTextToSpeech_failure [of net t st e a'] r by simp
  next
    case (Inr b)
    then show ?thesis using assms handleTextToSpeech_success [OF False, of net st b a'] r by auto
  qed
qed

lemma run_handler_inv:
  assumes "live_urls st \<subseteq> set_option (currentAudioUrl st)"
  shows "live_urls (run_handler h st) \<subseteq> set_option (currentAudioUrl (run_handler h st))"
proof (cases h)
  case (RunTextToSpeech net t)
  then show ?thesis using assms by (simp add: handleTextToSpeech_inv)
next
  case RunClearTextResults
  then show ?thesis using assms
    by (cases "currentAudioUrl st") (auto simp: clearTextResults_def emit_def revokeObjectURL_def Let_def)
next
  case RunBeforeUnload
  then show ?thesis using assms
    by (cases "currentAudioUrl st") (auto simp: beforeunload_def revokeObjectURL_def)
next
  case (RunDownloadResult ocr ans)
  then show ?thesis using assms
    by (auto simp: downloadResult_def emit_def createObjectURL_def revokeObjectURL_def Let_def)
next
  case (RunImageSelect f)
  then show ?thesis using assms by (auto simp: handleImageSelect_def emit_def)
qed

lemma run_handlers_inv:
  "live_urls st \<subseteq> set_option (currentAudioUrl st) \<Longrightarrow>
     live_urls (run_handlers hs st) \<subseteq> set_option (currentAudioUrl (run_handlers hs st))"
  unfolding run_handlers_def
  by (induction hs arbitrary: st) (simp_all add: run_handler_inv)

lemma reachable_inv:
  "live_urls (run_handlers hs (initial_app_state a))
     \<subseteq> set_option (currentAudioUrl (run_handlers hs (initial_app_state a)))"
  by (rule run_handlers_inv) (simp add: initial_app_state_def)

lemma card_subset_option: "A \<subseteq> set_option x \<Longrightarrow> card A \<le> 1"
proof -
  assume a: "A \<subseteq> set_option x"
  have "card (set_option x) \<le> 1" by (cases x) simp_all
  moreover have "finite (set_option x)" by (cases x) simp_all
  ultimately show ?thesis using a card_mono [of "set_option x" A] by simp
qed


text \<open>
  C5: after any sequence of handler runs from the loaded page, the live object URLs are
  at most the one held in \<^verbatim>\<open>currentAudioUrl\<close>, so at most one is live. A successful
  text-to-speech call revokes the stored URL and stores a new one: after two successful
  calls exactly the second URL is live and the first is revoked.
  \<^verbatim>\<open>clearTextResults\<close> and the unload listener revoke the current URL.
\<close>

theorem one_audio_url_live:
  "card (live_urls (run_handlers hs (initial_app_state a))) \<le> 1
   \<and> live_urls (run_handlers hs (initial_app_state a))
        \<subseteq> set_option (currentAudioUrl (run_handlers hs (initial_app_state a)))
   \<and> (st0 = run_handlers hs (initial_app_state a)
        \<and> st1 = handleTextToSpeech net1 t1 st0
        \<and> st2 = handleTextToSpeech net2 t2 st1
        \<and> fst (textToSpeech net1 (JStr t1) (api st0)) = Inr b1
        \<and> fst (textToSpeech net2 (JStr t2) (api st1)) = Inr b2
      \<longrightarrow> currentAudioUrl st1 = Some (next_url st0)
          \<and> live_urls st1 = {next_url st0}
          \<and> currentAudioUrl st2 = Some (Suc (next_url st0))
          \<and> live_urls st2 = {Suc (next_url st0)}
          \<and> next_url st0 \<notin> live_urls st2)
   \<and> (currentAudioUrl st = Some u
      \<longrightarrow> u \<notin> live_urls (clearTextResults st)
          \<and> currentAudioUrl (clearTextResults st) = None
          \<and> u \<notin> live_urls (beforeunload st))"
proof (intro conjI impI)
  show inv: "live_urls (run_handlers hs (initial_app_state a))
        \<subseteq> set_option (currentAudioUrl (run_handlers hs (initial_app_state a)))"
    by (rule reachable_inv)
  then show "card (live_urls (run_handlers hs (initial_app_state a))) \<le> 1"
    by (rule card_subset_option)
next
  assume h: "st0 = run_handlers hs (initial_app_state a)
        \<and> st1 = handleTextToSpeech net1 t1 st0
        \<and> st2 = handleTextToSpeech net2 t2 st1
        \<and> fst (textToSpeech net1 (JStr t1) (api st0)) = Inr b1
        \<and> fst (textToSpeech net2 (JStr t2) (api st1)) = Inr b2"
  then have i0: "live_urls st0 \<subseteq> set_option (currentAudioUrl st0)"
    using reachable_inv [of hs a] by simp
  have n1: "t1 \<noteq> []" using h by (auto simp: textToSpeech_def)
  have n2: "t2 \<noteq> []" using h by (auto simp: textToSpeech_def)
  obtain a1 where r1: "textToSpeech net1 (JStr t1) (api st0) = (Inr b1, a1)"
    using h by (cases "textToSpeech net1 (JStr t1) (api st0)") simp
  obtain a2 where r2: "textToSpeech net2 (JStr t2) (api st1) = (Inr b2, a2)"
    using h by (cases "textToSpeech net2 (JStr t2) (api st1)") simp
  have s1: "st1 = st0\<lparr>api := a1,
              currentAudioUrl := Some (next_url st0),
              live_urls := insert (next_url st0) (live_urls st0 - set_option (currentAudioUrl st0)),
              next_url := Suc (next_url st0),
              ui := ui st0 @ [ShowLoading ''Generating audio...'', SetAudioSrc (next_url st0),
                             RemoveClass ''audio-player'' ''hidden'', PlayAudio, HideLoading]\<rparr>"
    using h handleTextToSpeech_success [OF n1 r1] by simp
  have l0: "live_urls st0 - set_option (currentAudioUrl st0) = {}" using i0 by auto
  show c1: "currentAudioUrl st1 = Some (next_url st0)" using s1 by simp
  show l1: "live_urls st1 = {next_url st0}" using s1 l0 by simp
  have x1: "next_url st1 = Suc (next_url st0)" using s1 by simp
  have s2: "st2 = st1\<lparr>api := a2,
              currentAudioUrl := Some (next_url st1),
              live_urls := insert (next_url st1) (live_urls st1 - set_option (currentAudioUrl st1)),
              next_url := Suc (next_url st1),
              ui := ui st1 @ [ShowLoading ''Generating audio...'', SetAudioSrc (next_url st1),
                             RemoveClass ''audio-player'' ''hidden'', PlayAudio, HideLoading]\<rparr>"
    using h handleTextToSpeech_success [OF n2 r2] by simp
  show "currentAudioUrl st2 = Some (Suc (next_url st0))" using s2 x1 by simp
  show l2: "live_urls st2 = {Suc (next_url st0)}" using s2 x1 c1 l1 by simp
  show "next_url st0 \<notin> live_urls st2" using l2 by simp
next
  assume c: "currentAudioUrl st = Some u"
  show "u \<notin> live_urls (clearTextResults st)"
    using c by (simp add: clearTextResults_def emit_def revokeObjectURL_def Let_def)
  show "currentAudioUrl (clearTextResults st) = None"
    using c by (simp add: clearTextResults_def emit_def revokeObjectURL_def Let_def)
  show "u \<notin> live_urls (beforeunload st)"
    using c by (simp add: beforeunload_def revokeObjectURL_def)
qed

theorem one_audio_url_live_witness:
  "live_urls
     (handleTextToSpeech (\<lambda>rq. Resolved \<lparr>status = 200, content = RawText ''mp3''\<rparr>) ''again''
       (handleTextToSpeech (\<lambda>rq. Resolved \<lparr>status = 200, content = RawText ''mp3''\<rparr>) ''hello''
         (initial_app_state \<lparr>API_BASE_URL = ''http://x'', localStorage = None, requests = []\<rparr>))) = {1}
   \<and> currentAudioUrl
     (handleTextToSpeech (\<lambda>rq. Resolved \<lparr>status = 200, content = RawText ''mp3''\<rparr>) ''again''
       (handleTextToSpeech (\<lambda>rq. Resolved \<lparr>status = 200, content = RawText ''mp3''\<rparr>) ''hello''
         (initial_app_state \<lparr>API_BASE_URL = ''http://x'', localStorage = None, requests = []\<rparr>))) = Some 1
   \<and> 0 \<notin> live_urls (clearTextResults
       (handleTextToSpeech (\<lambda>rq. Resolved \<lparr>status = 200, content = RawText ''mp3''\<rparr>) ''hello''
         (initial_app_state \<lparr>API_BASE_URL = ''http://x'', localStorage = None, requests = []\<rparr>)))"
proof -
  let ?net = "\<lambda>rq::request. Resolved \<lparr>status = 200, content = RawText ''mp3''\<rparr>"
  let ?a = "\<lparr>API_BASE_URL = ''http://x'', localStorage = None, requests = []\<rparr>"
  let ?s0 = "initial_app_state ?a"
  let ?s1 = "handleTextToSpeech ?net ''hello'' ?s0"
  have r0: "run_handlers [] ?s0 = ?s0" by (simp add: run_handlers_def)
  have t1: "fst (textToSpeech ?net (JStr ''hello'') (api ?s0)) = Inr (Blob (RawText ''mp3''))"
    by (simp add: textToSpeech_def trim_def is_space_def fetch_def ok_def response_blob_def
        initial_app_state_def)
  have t2: "fst (textToSpeech ?net (JStr ''again'') (api ?s1)) = Inr (Blob (RawText ''mp3''))"
    by (simp add: textToSpeech_def trim_def is_space_def fetch_def ok_def response_blob_def Let_def
        split: prod.splits)
  have c1: "currentAudioUrl ?s1 = Some 0"
    using one_audio_url_live [where hs = "[]" and a = ?a and ?st0.0 = ?s0 and ?st1.0 = ?s1
        and ?st2.0 = "handleTextToSpeech ?net ''again'' ?s1" and ?net1.0 = ?net and ?net2.0 = ?net
        and ?t1.0 = "''hello''" and ?t2.0 = "''again''"
        and ?b1.0 = "Blob (RawText ''mp3'')" and ?b2.0 = "Blob (RawText ''mp3'')"] r0 t1 t2
    by (simp add: initial_app_state_def)
  show ?thesis
    using one_audio_url_live [where hs = "[]" and a = ?a and ?st0.0 = ?s0 and ?st1.0 = ?s1
        and ?st2.0 = "handleTextToSpeech ?net ''again'' ?s1" and ?net1.0 = ?net and ?net2.0 = ?net
        and ?t1.0 = "''hello''" and ?t2.0 = "''again''"
        and ?b1.0 = "Blob (RawText ''mp3'')" and ?b2.0 = "Blob (RawText ''mp3'')"
        and st = ?s1 and u = 0] r0 t1 t2 c1
    by (simp add: initial_app_state_def)
qed

subsection \<open>Switching tabs\<close>

text \<open>How the class changes read element by element.\<close>

lemma at_element_length: "length (at_element f i d) = length d"
  by (simp add: at_element_def)

lemma at_element_nth:
  "k < length d \<Longrightarrow> at_element f i d ! k = (if k = i then f (d ! k) else d ! k)"
  by (simp add: at_element_def nth_list_update)

lemma forEach_remove_length: "length (forEach_remove c nodes d) = length d"
  unfolding forEach_remove_def
  by (induction nodes arbitrary: d) (simp_all add: at_element_length)

lemma classList_remove_idem: "classList_remove c (classList_remove c e) = classList_remove c e"
  by (simp add: classList_remove_def)

lemma forEach_remove_nth:
  "k < length d \<Longrightarrow>
     forEach_remove c nodes d ! k = (if k \<in> set nodes then classList_remove c (d ! k) else d ! k)"
  unfolding forEach_remove_def
proof (induction nodes arbitrary: d)
  case Nil
  then show ?case by simp
next
  case (Cons i nodes)
  have len: "k < length (at_element (classList_remove c) i d)"
    using Cons.prems by (simp add: at_element_length)
  show ?case
    using Cons.IH [OF len] Cons.prems
    by (auto simp: at_element_nth classList_remove_idem)
qed

lemma set_querySelectorAll_class:
  "set (querySelectorAll_class c d) = {i. i < length d \<and> has_class c (d ! i)}"
  by (auto simp: querySelectorAll_class_def)

lemma has_class_remove: "has_class c (classList_remove c' e) \<longleftrightarrow> c \<noteq> c' \<and> has_class c e"
  by (auto simp: has_class_def classList_remove_def)

lemma has_class_add: "has_class c (classList_add c' e) \<longleftrightarrow> c = c' \<or> has_class c e"
  by (auto simp: has_class_def classList_add_def)

lemma elem_id_remove: "elem_id (classList_remove c e) = elem_id e"
  by (simp add: classList_remove_def)

lemma elem_id_add: "elem_id (classList_add c e) = elem_id e"
  by (simp add: classList_add_def)

lemma getElementById_cong:
  assumes "length d' = length d" and "\<And>k. k < length d \<Longrightarrow> elem_id (d' ! k) = elem_id (d ! k)"
  shows "getElementById x d' = getElementById x d"
  unfolding getElementById_def using assms
  by (auto intro!: find_cong)

lemma getElementById_Some:
  "getElementById x d = Some i \<Longrightarrow> i < length d \<and> elem_id (d ! i) = x"
  by (auto simp: getElementById_def find_Some_iff)

lemma filter_upt_only:
  assumes "b < n" and "\<And>i. i < n \<Longrightarrow> P i \<longleftrightarrow> i = b"
  shows "[i \<leftarrow> [0..<n]. P i] = [b]"
proof -
  have "[i \<leftarrow> [0..<n]. P i] = [i \<leftarrow> [0..<n]. i = b]"
    using assms(2) by (auto intro: filter_cong)
  also have "\<dots> = [b]"
    using assms(1)
  proof (induction n)
    case 0
    then show ?case by simp
  next
    case (Suc n)
    show ?case
    proof (cases "b < n")
      case True
      then show ?thesis using Suc.IH by simp
    next
      case False
      then have "b = n" using Suc.prems by simp
      then show ?thesis by (simp add: filter_empty_conv)
    qed
  qed
  finally show ?thesis .
qed


text \<open>
  After the two \<^verbatim>\<open>forEach\<close> loops every tab button and every tab content has lost
  \<^verbatim>\<open>active\<close>, and nothing else has changed.
\<close>

lemma cleared_nth:
  assumes "k < length d"
  shows "forEach_remove ''active'' (querySelectorAll_class ''tab-content'' d)
           (forEach_remove ''active'' (querySelectorAll_class ''tab-btn'' d) d) ! k
         = (if has_class ''tab-btn'' (d ! k) \<or> has_class ''tab-content'' (d ! k)
            then classList_remove ''active'' (d ! k) else d ! k)"
proof -
  let ?d1 = "forEach_remove ''active'' (querySelectorAll_class ''tab-btn'' d) d"
  have l1: "k < length ?d1" using assms by (simp add: forEach_remove_length)
  have n1: "?d1 ! k = (if has_class ''tab-btn'' (d ! k) then classList_remove ''active'' (d ! k) else d ! k)"
    using assms by (simp add: forEach_remove_nth set_querySelectorAll_class)
  show ?thesis
    using assms l1 n1
    by (simp add: forEach_remove_nth [OF l1] set_querySelectorAll_class classList_remove_idem)
qed

text \<open>
  C8: on the page \<^verbatim>\<open>switchTab\<close> is written for, whatever classes its elements carried
  before, the call completes without an error, and afterwards exactly one tab button is
  active (the first for \<^verbatim>\<open>text\<close>, the second otherwise) and exactly one tab content is
  active (the panel \<^verbatim>\<open>text-tab\<close> for \<^verbatim>\<open>text\<close>, \<^verbatim>\<open>image-tab\<close> otherwise).
\<close>

theorem switchTab_one_active:
  assumes "tab_page d"
  shows "fst (switchTab tab d) = None
     \<and> active_of_class ''tab-btn'' (snd (switchTab tab d))
         = [querySelectorAll_class ''tab-btn'' d ! (if tab = ''text'' then 0 else 1)]
     \<and> (\<exists>p. getElementById (if tab = ''text'' then ''text-tab'' else ''image-tab'') d = Some p
           \<and> active_of_class ''tab-content'' (snd (switchTab tab d)) = [p])"
proof -
  let ?B = "querySelectorAll_class ''tab-btn'' d"
  let ?C = "querySelectorAll_class ''tab-content'' d"
  let ?d2 = "forEach_remove ''active'' ?C (forEach_remove ''active'' ?B d)"
  let ?k0 = "if tab = ''text'' then 0 else (1::nat)"
  let ?panel = "if tab = ''text'' then ''text-tab'' else ''image-tab''"
  let ?b = "?B ! ?k0"
  have two: "2 \<le> length ?B" using assms by (simp add: tab_page_def)
  then have k0: "?k0 < length ?B" by auto
  then have "?b \<in> set ?B" by (rule nth_mem)
  then have b: "?b < length d" and bb: "has_class ''tab-btn'' (d ! ?b)"
    by (simp_all add: set_querySelectorAll_class)
  have "\<exists>p. getElementById ?panel d = Some p \<and> has_class ''tab-content'' (d ! p)"
    using assms by (cases "tab = ''text''") (auto simp: tab_page_def split: option.splits)
  then obtain p where gp: "getElementById ?panel d = Some p" and pc: "has_class ''tab-content'' (d ! p)"
    by blast
  have p: "p < length d" using gp by (auto dest: getElementById_Some)
  have nb: "\<not> (has_class ''tab-btn'' (d ! k) \<and> has_class ''tab-content'' (d ! k))" if "k < length d" for k
    using assms that by (simp add: tab_page_def list_all_length)
  have pb: "p \<noteq> ?b" using nb [OF p] pc bb by auto
  have len2: "length ?d2 = length d" by (simp add: forEach_remove_length)
  have id2: "elem_id (?d2 ! k) = elem_id (d ! k)" if "k < length d" for k
    using that by (simp add: cleared_nth elem_id_remove)
  have cls2: "has_class c (?d2 ! k) = has_class c (d ! k)" if "k < length d" "c \<noteq> ''active''" for k c
    using that by (simp add: cleared_nth has_class_remove)
  have act2: "\<not> has_class ''tab-btn'' (d ! k) \<and> \<not> has_class ''tab-content'' (d ! k)"
    if "k < length d" "has_class ''active'' (?d2 ! k)" for k
    using that by (auto simp: cleared_nth has_class_remove split: if_splits)
  let ?d3 = "at_element (classList_add ''active'') ?b ?d2"
  let ?d4 = "at_element (classList_add ''active'') p ?d3"
  have len3: "length ?d3 = length d" by (simp add: at_element_length forEach_remove_length)
  have len4: "length ?d4 = length d" by (simp add: at_element_length forEach_remove_length)
  have n3: "?d3 ! k = (if k = ?b then classList_add ''active'' (?d2 ! k) else ?d2 ! k)"
    if "k < length d" for k
    using that len2 at_element_nth [of k ?d2 "classList_add ''active''" ?b] by simp
  have n4: "?d4 ! k = (if k = p then classList_add ''active'' (?d3 ! k) else ?d3 ! k)"
    if "k < length d" for k
    using that len3 at_element_nth [of k ?d3 "classList_add ''active''" p] by simp
  have id3: "elem_id (?d3 ! k) = elem_id (d ! k)" if "k < length d" for k
    using that by (simp add: n3 elem_id_add id2)
  have g3: "getElementById ?panel ?d3 = Some p"
    using getElementById_cong [of ?d3 d ?panel] len3 id3 gp by simp
  have s1: "add_at_index ''active'' ?B ?k0 ?d2 = Inr ?d3"
    using k0 by (simp add: add_at_index_def)
  have s2: "add_by_id ''active'' ?panel ?d3 = Inr ?d4"
    using g3 by (simp add: add_by_id_def)
  have sw: "switchTab tab d = (None, ?d4)"
    using s1 s2 by (cases "tab = ''text''") (simp_all add: switchTab_def Let_def)
  have cls4: "has_class c (?d4 ! k) = has_class c (d ! k)" if "k < length d" "c \<noteq> ''active''" for k c
    using that by (simp add: n4 n3 has_class_add cls2)
  have act4: "has_class ''active'' (?d4 ! k) \<longleftrightarrow> k = p \<or> k = ?b \<or> has_class ''active'' (?d2 ! k)"
    if "k < length d" for k
    using that by (simp add: n4 n3 has_class_add)
  have btn: "has_class ''tab-btn'' (?d4 ! k) \<and> has_class ''active'' (?d4 ! k) \<longleftrightarrow> k = ?b"
    if "k < length d" for k
    using that cls4 [OF that, of "''tab-btn''"] act4 [OF that] act2 [OF that] nb [OF p] pc bb
    by auto
  have cont: "has_class ''tab-content'' (?d4 ! k) \<and> has_class ''active'' (?d4 ! k) \<longleftrightarrow> k = p"
    if "k < length d" for k
    using that cls4 [OF that, of "''tab-content''"] act4 [OF that] act2 [OF that] nb [OF b] pc bb
    by auto
  have a1: "active_of_class ''tab-btn'' ?d4 = [?b]"
    unfolding active_of_class_def len4 using b btn by (rule filter_upt_only)
  have a2: "active_of_class ''tab-content'' ?d4 = [p]"
    unfolding active_of_class_def len4 using p cont by (rule filter_upt_only)
  show ?thesis using sw a1 a2 gp by simp
qed


theorem switchTab_one_active_witness:
  "tab_page
     [\<lparr>elem_id = ''btn-text'', classList = [''tab-btn'', ''active'']\<rparr>,
      \<lparr>elem_id = ''btn-image'', classList = [''tab-btn'']\<rparr>,
      \<lparr>elem_id = ''text-tab'', classList = [''tab-content'', ''active'']\<rparr>,
      \<lparr>elem_id = ''image-tab'', classList = [''tab-content'']\<rparr>]
   \<and> fst (switchTab ''image''
     [\<lparr>elem_id = ''btn-text'', classList = [''tab-btn'', ''active'']\<rparr>,
      \<lparr>elem_id = ''btn-image'', classList = [''tab-btn'']\<rparr>,
      \<lparr>elem_id = ''text-tab'', classList = [''tab-content'', ''active'']\<rparr>,
      \<lparr>elem_id = ''image-tab'', classList = [''tab-content'']\<rparr>]) = None
   \<and> active_of_class ''tab-btn'' (snd (switchTab ''image''
     [\<lparr>elem_id = ''btn-text'', classList = [''tab-btn'', ''active'']\<rparr>,
      \<lparr>elem_id = ''btn-image'', classList = [''tab-btn'']\<rparr>,
      \<lparr>elem_id = ''text-tab'', classList = [''tab-content'', ''active'']\<rparr>,
      \<lparr>elem_id = ''image-tab'', classList = [''tab-content'']\<rparr>])) = [1]
   \<and> active_of_class ''tab-content'' (snd (switchTab ''image''
     [\<lparr>elem_id = ''btn-text'', classList = [''tab-btn'', ''active'']\<rparr>,
      \<lparr>elem_id = ''btn-image'', classList = [''tab-btn'']\<rparr>,
      \<lparr>elem_id = ''text-tab'', classList = [''tab-content'', ''active'']\<rparr>,
      \<lparr>elem_id = ''image-tab'', classList = [''tab-content'']\<rparr>])) = [3]
   \<and> active_of_class ''tab-btn'' (snd (switchTab ''text''
     [\<lparr>elem_id = ''btn-text'', classList = [''tab-btn'', ''active'']\<rparr>,
      \<lparr>elem_id = ''btn-image'', classList = [''tab-btn'']\<rparr>,
      \<lparr>elem_id = ''text-tab'', classList = [''tab-content'', ''active'']\<rparr>,
      \<lparr>elem_id = ''image-tab'', classList = [''tab-content'']\<rparr>])) = [0]
   \<and> active_of_class ''tab-content'' (snd (switchTab ''text''
     [\<lparr>elem_id = ''btn-text'', classList = [''tab-btn'', ''active'']\<rparr>,
      \<lparr>elem_id = ''btn-image'', classList = [''tab-btn'']\<rparr>,
      \<lparr>elem_id = ''text-tab'', classList = [''tab-content'', ''active'']\<rparr>,
      \<lparr>elem_id = ''image-tab'', classList = [''tab-content'']\<rparr>])) = [2]"
proof -
  let ?d = "[\<lparr>elem_id = ''btn-text'', classList = [''tab-btn'', ''active'']\<rparr>,
      \<lparr>elem_id = ''btn-image'', classList = [''tab-btn'']\<rparr>,
      \<lparr>elem_id = ''text-tab'', classList = [''tab-content'', ''active'']\<rparr>,
      \<lparr>elem_id = ''image-tab'', classList = [''tab-content'']\<rparr>]"
  have u: "[0..<4] = [0, 1, 2, Suc 2]" by (simp add: upt_rec)
  have q: "querySelectorAll_class ''tab-btn'' ?d = [0, 1]"
    by (simp add: querySelectorAll_class_def has_class_def u)
  have g1: "getElementById ''text-tab'' ?d = Some 2"
    by (simp add: getElementById_def u)
  have g2: "getElementById ''image-tab'' ?d = Some (Suc 2)"
    by (simp add: getElementById_def u)
  have tp: "tab_page ?d"
    by (simp add: tab_page_def q g1 g2 has_class_def)
  show ?thesis
    using tp switchTab_one_active [OF tp, of "''image''"] switchTab_one_active [OF tp, of "''text''"]
    by (simp add: q g1 g2)
qed

section \<open>Properties of the voice wrapper\<close>

text \<open>In every state the wrapper reaches, listening implies that recognition is supported
  and that the recognition object exists.\<close>

lemma voice_step_listening:
  assumes "isListening v \<longrightarrow> supported \<and> recognition v \<noteq> None"
  shows "isListening (voice_step supported e v) \<longrightarrow>
           supported \<and> recognition (voice_step supported e v) \<noteq> None"
proof (cases e)
  case CallRecognize
  then show ?thesis using assms
    by (auto simp: recognize_def initialize_def recognition_start_def Let_def split: if_splits)
next
  case CallStop
  then show ?thesis using assms by (auto simp: stop_def)
next
  case (Result t)
  then show ?thesis using assms by (auto simp: onresult_def)
next
  case (Failure c)
  then show ?thesis using assms by (auto simp: onerror_def)
next
  case End
  then show ?thesis using assms by (auto simp: onend_def)
qed

lemma voice_run_listening:
  "isListening (voice_run supported evs) \<longrightarrow>
     supported \<and> recognition (voice_run supported evs) \<noteq> None"
proof (induction evs rule: rev_induct)
  case Nil
  show ?case by (simp add: voice_run_def initial_voice_def)
next
  case (snoc e evs)
  have eq: "voice_run supported (evs @ [e]) = voice_step supported e (voice_run supported evs)"
    by (simp add: voice_run_def)
  show ?case unfolding eq by (rule voice_step_listening) (rule snoc.IH)
qed

lemma recognize_while_listening:
  "supported \<Longrightarrow> isListening v \<Longrightarrow>
     fst (recognize supported v) = Reject (Error ''Already listening'')
     \<and> start_calls (snd (recognize supported v)) = start_calls v
     \<and> session_running (snd (recognize supported v)) = session_running v
     \<and> isListening (snd (recognize supported v))"
  by (simp add: recognize_def initialize_def Let_def)

text \<open>
  C6: in every state the wrapper can reach, a call of \<^verbatim>\<open>recognize\<close> made while the
  listening flag is true fails with \<^verbatim>\<open>Already listening\<close> and changes nothing:
  \<^verbatim>\<open>recognition.start()\<close> is not called and the flag stays true. Without support for
  speech recognition, \<^verbatim>\<open>recognize\<close> fails at once and changes nothing.
\<close>

theorem recognize_guards:
  "(isListening (voice_run supported evs) \<longrightarrow>
      recognize supported (voice_run supported evs)
        = (Reject (Error ''Already listening''), voice_run supported evs))
   \<and> (supported \<and> isListening v \<longrightarrow>
      fst (recognize supported v) = Reject (Error ''Already listening'')
      \<and> start_calls (snd (recognize supported v)) = start_calls v
      \<and> isListening (snd (recognize supported v)))
   \<and> (\<not> supported \<longrightarrow>
      recognize supported v = (Reject (Error ''Speech recognition not supported''), v))"
proof (intro conjI impI)
  assume l: "isListening (voice_run supported evs)"
  then have "supported" and "recognition (voice_run supported evs) \<noteq> None"
    using voice_run_listening [of supported evs] by blast+
  then show "recognize supported (voice_run supported evs)
        = (Reject (Error ''Already listening''), voice_run supported evs)"
    using l by (auto simp: recognize_def)
next
  assume a: "supported \<and> isListening v"
  then show "fst (recognize supported v) = Reject (Error ''Already listening'')"
    and "start_calls (snd (recognize supported v)) = start_calls v"
    and "isListening (snd (recognize supported v))"
    using recognize_while_listening [of supported v] by simp_all
next
  assume "\<not> supported"
  then show "recognize supported v = (Reject (Error ''Speech recognition not supported''), v)"
    by (simp add: recognize_def)
qed

theorem recognize_guards_witness:
  "isListening (voice_run True [CallRecognize])
   \<and> start_calls (voice_run True [CallRecognize]) = 1
   \<and> fst (recognize True (voice_run True [CallRecognize])) = Reject (Error ''Already listening'')
   \<and> start_calls (snd (recognize True (voice_run True [CallRecognize]))) = 1
   \<and> isListening (snd (recognize True (voice_run True [CallRecognize])))
   \<and> recognize False initial_voice = (Reject (Error ''Speech recognition not supported''), initial_voice)"
proof -
  have l: "isListening (voice_run True [CallRecognize])"
    by (simp add: voice_run_def initial_voice_def recognize_def initialize_def
        recognition_start_def Let_def)
  have s: "start_calls (voice_run True [CallRecognize]) = 1"
    by (simp add: voice_run_def initial_voice_def recognize_def initialize_def
        recognition_start_def Let_def)
  show ?thesis
    using l s recognize_guards [of True "[CallRecognize]" "voice_run True [CallRecognize]"]
      recognize_guards [of False "[]" initial_voice]
    by simp
qed


end
